theory Spec2Isabelle
  imports Complex_Main "HOL-Library.Word" "HOL-Library.Sublist" "HOL-Library.AList"
begin

section \<open>Python values and exceptions\<close>

text \<open>
  Exceptions are values. The classes are those the script can meet: the interpreter's own
  (a float division by zero, a bad format code, a bad subscript, a missing key), the
  \<^verbatim>\<open>HTTPError\<close> of \<^verbatim>\<open>raise_for_status\<close>, and \<open>LibraryError\<close> for whatever an
  external library raises (the argument names it). All of them derive from
  \<^verbatim>\<open>Exception\<close>, so \<^verbatim>\<open>except Exception\<close> catches each.
\<close>

datatype exn =
    ZeroDivisionError
  | ValueError
  | TypeError
  | KeyError
  | HTTPError
  | LibraryError string

text \<open>The value of \<^verbatim>\<open>response.json()\<close>: a parsed JSON document as Python holds it.\<close>

datatype json =
    JNull
  | JBool bool
  | JInt int
  | JFloat real
  | JString string
  | JArray "json list"
  | JObject "(string \<times> json) list"

section \<open>Formatting\<close>

definition bit_char :: "nat \<Rightarrow> char" where
  "bit_char d = (if d = 0 then CHR ''0'' else CHR ''1'')"

text \<open>The binary digits of a natural number, most significant first (\<open>0\<close> is \<open>''0''\<close>).\<close>

fun bin_digits :: "nat \<Rightarrow> string" where
  "bin_digits n = (if n < 2 then [bit_char n] else bin_digits (n div 2) @ [bit_char (n mod 2)])"

declare bin_digits.simps [simp del]

text \<open>
  \<^verbatim>\<open>f"{x:08b}"\<close> on a Python int: the sign, then the binary digits, zero-padded between
  sign and digits up to a total width of 8; a wider number is not cut.
\<close>

definition format_08b :: "int \<Rightarrow> string" where
  "format_08b x =
     (let sign = (if x < 0 then ''-'' else '''');
          digs = bin_digits (nat \<bar>x\<bar>)
      in sign @ replicate (8 - length sign - length digs) (CHR ''0'') @ digs)"

text \<open>\<^verbatim>\<open>s[:n]\<close>: the first \<open>n\<close> characters, or all but the last \<open>-n\<close> when \<open>n\<close> is negative.\<close>

definition slice_to :: "string \<Rightarrow> int \<Rightarrow> string" where
  "slice_to s n = (if 0 \<le> n then take (nat n) s else take (nat (int (length s) + n)) s)"

text \<open>\<^verbatim>\<open>f"{name:<20}"\<close>: left-aligned in a field of the given width, never cut.\<close>

definition ljust :: "nat \<Rightarrow> string \<Rightarrow> string" where
  "ljust w s = s @ replicate (w - length s) (CHR '' '')"

definition digit_char :: "nat \<Rightarrow> char" where
  "digit_char d = ''0123456789'' ! d"

fun dec_digits :: "nat \<Rightarrow> string" where
  "dec_digits n = (if n < 10 then [digit_char n] else dec_digits (n div 10) @ [digit_char (n mod 10)])"

declare dec_digits.simps [simp del]

text \<open>\<^verbatim>\<open>str(i)\<close> on a Python int.\<close>

definition str_int :: "int \<Rightarrow> string" where
  "str_int i = (if i < 0 then CHR ''-'' # dec_digits (nat (- i)) else dec_digits (nat i))"

section \<open>The world outside the script\<close>

text \<open>The circuit of \<^verbatim>\<open>QuantumCircuit(1, 1); qc.h(0); qc.measure(0, 0)\<close>.\<close>

datatype instruction = H nat | Measure nat nat

record circuit =
  num_qubits :: nat
  num_clbits :: nat
  instructions :: "instruction list"

text \<open>The arguments of \<^verbatim>\<open>backend.run(qc, shots=..., memory=...)\<close>.\<close>

record job =
  job_circuit :: circuit
  shots :: int
  memory :: bool

datatype param = PInt int | PStr string

text \<open>The arguments of \<^verbatim>\<open>requests.get(url, params=..., timeout=...)\<close>.\<close>

record http_request =
  req_url :: string
  req_params :: "(string \<times> param) list"
  req_timeout :: nat

text \<open>
  What the script reads of a response: the status code, and what \<^verbatim>\<open>.json()\<close> gives
  (the parsed body, or the exception of a body that is not JSON).
\<close>

record response =
  status_code :: int
  json_result :: "exn + json"

text \<open>
  Everything the script gets from outside, as one record:
  \<^item> \<open>perf_readings k\<close> is the value of the \<open>k\<close>-th call of \<^verbatim>\<open>time.perf_counter()\<close>
    (seconds, a float in Python; only differences, their sign and whether they are zero
    are used here, and on those a difference of reals and of floats agree);
  \<^item> \<open>os_entropy\<close> is the byte stream of the operating system's secure random source;
  \<^item> \<open>aer_run j\<close> is the list \<^verbatim>\<open>backend.run(...).result().get_memory()\<close> of the simulator
    for a job, or the exception the backend raises;
  \<^item> \<open>http_get r\<close> is the response of \<^verbatim>\<open>requests.get\<close>, or the exception it raises
    (connection error, timeout);
  \<^item> \<open>exn_text e\<close> is \<^verbatim>\<open>str(e)\<close>, the description of an exception.
\<close>

record env =
  perf_readings :: "nat \<Rightarrow> real"
  os_entropy :: "nat \<Rightarrow> 8 word"
  aer_run :: "job \<Rightarrow> exn + string list"
  http_get :: "http_request \<Rightarrow> exn + response"
  exn_text :: "exn \<Rightarrow> string"

text \<open>\<^verbatim>\<open>time.perf_counter()\<close>: the next reading; the number of readings taken is state.\<close>

definition perf_counter :: "env \<Rightarrow> nat \<Rightarrow> real \<times> nat" where
  "perf_counter e k = (perf_readings e k, Suc k)"

text \<open>
  \<^verbatim>\<open>secrets.token_bytes(nbytes)\<close>: that many bytes of the stream; a negative count is a
  \<^verbatim>\<open>ValueError\<close>.
\<close>

definition token_bytes :: "env \<Rightarrow> int \<Rightarrow> exn + 8 word list" where
  "token_bytes e nbytes =
     (if nbytes < 0 then Inl ValueError else Inr (map (os_entropy e) [0..<nat nbytes]))"

text \<open>\<^verbatim>\<open>response.raise_for_status()\<close>: an \<^verbatim>\<open>HTTPError\<close> for a 4xx or 5xx status.\<close>

definition raise_for_status :: "response \<Rightarrow> exn + unit" where
  "raise_for_status r =
     (if 400 \<le> status_code r \<and> status_code r < 600 then Inl HTTPError else Inr ())"

section \<open>The three generators\<close>

subsection \<open>Local quantum simulation\<close>

definition single_qubit_circuit :: circuit where
  "single_qubit_circuit =
     \<lparr>num_qubits = 1, num_clbits = 1, instructions = [H 0, Measure 0 0]\<rparr>"

definition quantum_job :: "int \<Rightarrow> job" where
  "quantum_job num_bits = \<lparr>job_circuit = single_qubit_circuit, shots = num_bits, memory = True\<rparr>"

definition quantum_generate_bits :: "env \<Rightarrow> int \<Rightarrow> exn + string" where
  "quantum_generate_bits e num_bits =
     (case aer_run e (quantum_job num_bits) of
        Inl err \<Rightarrow> Inl err
      | Inr mem \<Rightarrow> Inr (concat mem))"

subsection \<open>Remote API\<close>

definition anu_url :: string where
  "anu_url = ''https://qrng.anu.edu.au/API/jsonI.php''"

definition anu_request :: "string \<Rightarrow> int \<Rightarrow> http_request" where
  "anu_request url num_bits =
     (let num_bytes = num_bits div 8 + 1
      in \<lparr>req_url = url,
          req_params = [(''length'', PInt num_bytes), (''type'', PStr ''uint8'')],
          req_timeout = 10\<rparr>)"

text \<open>\<^verbatim>\<open>v["data"]\<close>: only a dict can be subscripted by a string, and the key must be there.\<close>

fun subscript_data :: "json \<Rightarrow> exn + json" where
  "subscript_data (JObject kvs) =
     (case map_of kvs ''data'' of None \<Rightarrow> Inl KeyError | Some d \<Rightarrow> Inr d)"
| "subscript_data _ = Inl TypeError"

text \<open>
  \<^verbatim>\<open>for x in data\<close>: the elements of a list, the characters of a string, the keys of a
  dict; nothing else can be iterated.
\<close>

fun iterate :: "json \<Rightarrow> exn + json list" where
  "iterate (JArray xs) = Inr xs"
| "iterate (JString s) = Inr (map (\<lambda>c. JString [c]) s)"
| "iterate (JObject kvs) = Inr (map (\<lambda>kv. JString (fst kv)) kvs)"
| "iterate _ = Inl TypeError"

text \<open>
  \<^verbatim>\<open>f"{x:08b}"\<close> on a JSON value: an int is formatted, and so is a bool (an int in
  Python); the code \<^verbatim>\<open>b\<close> is a \<^verbatim>\<open>ValueError\<close> on a float or a string, and the other
  values take no format string at all.
\<close>

fun format_json_08b :: "json \<Rightarrow> exn + string" where
  "format_json_08b (JInt x) = Inr (format_08b x)"
| "format_json_08b (JBool b) = Inr (format_08b (if b then 1 else 0))"
| "format_json_08b (JFloat _) = Inl ValueError"
| "format_json_08b (JString _) = Inl ValueError"
| "format_json_08b _ = Inl TypeError"

text \<open>The generator expression under \<^verbatim>\<open>"".join\<close>: in order, the first exception ends it.\<close>

fun format_each :: "json list \<Rightarrow> exn + string list" where
  "format_each [] = Inr []"
| "format_each (x # xs) =
     (case format_json_08b x of
        Inl err \<Rightarrow> Inl err
      | Inr s \<Rightarrow> (case format_each xs of Inl err \<Rightarrow> Inl err | Inr ss \<Rightarrow> Inr (s # ss)))"

text \<open>The body of the \<^verbatim>\<open>try\<close> block.\<close>

definition anu_try :: "env \<Rightarrow> string \<Rightarrow> int \<Rightarrow> exn + string" where
  "anu_try e url num_bits =
     (case http_get e (anu_request url num_bits) of
        Inl err \<Rightarrow> Inl err
      | Inr resp \<Rightarrow>
         (case raise_for_status resp of
            Inl err \<Rightarrow> Inl err
          | Inr _ \<Rightarrow>
             (case json_result resp of
                Inl err \<Rightarrow> Inl err
              | Inr doc \<Rightarrow>
                 (case subscript_data doc of
                    Inl err \<Rightarrow> Inl err
                  | Inr d \<Rightarrow>
                     (case iterate d of
                        Inl err \<Rightarrow> Inl err
                      | Inr xs \<Rightarrow>
                         (case format_each xs of
                            Inl err \<Rightarrow> Inl err
                          | Inr strs \<Rightarrow> Inr (slice_to (concat strs) num_bits)))))))"

definition anu_generate_bits :: "env \<Rightarrow> string \<Rightarrow> int \<Rightarrow> exn + string" where
  "anu_generate_bits e url num_bits =
     (case anu_try e url num_bits of
        Inl err \<Rightarrow> Inr (''Error: '' @ exn_text e err)
      | Inr s \<Rightarrow> Inr s)"

subsection \<open>Classical baseline\<close>

definition classical_generate_bits :: "env \<Rightarrow> int \<Rightarrow> exn + string" where
  "classical_generate_bits e num_bits =
     (let num_bytes = num_bits div 8 + 1
      in case token_bytes e num_bytes of
           Inl err \<Rightarrow> Inl err
         | Inr random_bytes \<Rightarrow>
             Inr (slice_to (concat (map (\<lambda>x. format_08b (uint x)) random_bytes)) num_bits))"

subsection \<open>The common method\<close>

datatype generator = QuantumSimulatorRNG | AnuWebQRNG string | ClassicalRNG

fun generate_bits :: "env \<Rightarrow> generator \<Rightarrow> int \<Rightarrow> exn + string" where
  "generate_bits e QuantumSimulatorRNG n = quantum_generate_bits e n"
| "generate_bits e (AnuWebQRNG url) n = anu_generate_bits e url n"
| "generate_bits e ClassicalRNG n = classical_generate_bits e n"

section \<open>The benchmark\<close>

text \<open>
  One call of \<^verbatim>\<open>print\<close>: its text, or a result row. A result row stands for
  \<^verbatim>\<open>f"{name:<20} | {duration:.5f} s  | {speed:.0f}"\<close>, whose numbers are kept as they are
  (the rendering of a float is not modelled).
\<close>

datatype printed = Text string | ResultRow string real real

text \<open>
  The state of a run: how many clock readings were taken, the dict \<^verbatim>\<open>results\<close> (insertion
  ordered, as a Python dict is) and what was printed, oldest first.
\<close>

record bench_state =
  clock_reads :: nat
  results :: "(string \<times> real) list"
  stdout :: "printed list"

definition generators :: "(string \<times> generator) list" where
  "generators =
     [(''Local Qiskit Sim'', QuantumSimulatorRNG),
      (''Classical OS'', ClassicalRNG),
      (''Remote ANU API'', AnuWebQRNG anu_url)]"

definition failed_row :: "string \<Rightarrow> string \<Rightarrow> string" where
  "failed_row name bits = ljust 20 name @ '' | FAILED     | '' @ bits"

text \<open>One turn of the \<^verbatim>\<open>for\<close> loop.\<close>

definition bench_step :: "env \<Rightarrow> int \<Rightarrow> string \<times> generator \<Rightarrow> bench_state \<Rightarrow> exn + bench_state" where
  "bench_step e target_bits ng st =
     (let (name, gen) = ng;
          (start_time, k1) = perf_counter e (clock_reads st)
      in case generate_bits e gen target_bits of
           Inl err \<Rightarrow> Inl err
         | Inr bits \<Rightarrow>
             (let (end_time, k2) = perf_counter e k1;
                  duration = end_time - start_time
              in if sublist ''Error'' bits
                 then Inr (st\<lparr>clock_reads := k2,
                             stdout := stdout st @ [Text (failed_row name bits)]\<rparr>)
                 else if duration = 0 then Inl ZeroDivisionError
                 else (let speed = real_of_int target_bits / duration
                       in Inr (st\<lparr>clock_reads := k2,
                                   results := AList.update name duration (results st),
                                   stdout := stdout st @ [ResultRow name duration speed]\<rparr>))))"

fun bench_loop :: "env \<Rightarrow> int \<Rightarrow> (string \<times> generator) list \<Rightarrow> bench_state \<Rightarrow> exn + bench_state" where
  "bench_loop e target_bits [] st = Inr st"
| "bench_loop e target_bits (ng # rest) st =
     (case bench_step e target_bits ng st of
        Inl err \<Rightarrow> Inl err
      | Inr st' \<Rightarrow> bench_loop e target_bits rest st')"

definition header :: "int \<Rightarrow> printed list" where
  "header target_bits =
     [Text (CHR 0x0A # ''--- Benchmarking Generation of '' @ str_int target_bits @ '' bits ---''),
      Text (ljust 20 ''Method'' @ '' | '' @ ljust 10 ''Time (sec)'' @ '' | '' @ ljust 15 ''Speed (bits/s)''),
      Text (replicate 50 (CHR ''-''))]"

text \<open>
  \<^verbatim>\<open>def run_benchmark(target_bits=1024)\<close>: \<open>None\<close> is the call without an argument. The
  function's return value is the \<open>results\<close> of the final state.
\<close>

text \<open>The state when the loop is entered: an empty dict, the three header lines printed.\<close>

definition initial_state :: "int \<Rightarrow> bench_state" where
  "initial_state target_bits = \<lparr>clock_reads = 0, results = [], stdout = header target_bits\<rparr>"

definition run_benchmark :: "env \<Rightarrow> int option \<Rightarrow> exn + bench_state" where
  "run_benchmark e arg =
     (let target_bits = (case arg of None \<Rightarrow> 1024 | Some n \<Rightarrow> n)
      in bench_loop e target_bits generators (initial_state target_bits))"

text \<open>
  The duration measured by a turn of the loop whose first clock reading is the \<open>k\<close>-th:
  \<^verbatim>\<open>end_time - start_time\<close>. The \<open>i\<close>-th generator's turn starts at reading \<open>2 * i\<close>.
\<close>

definition duration_at :: "env \<Rightarrow> nat \<Rightarrow> real" where
  "duration_at e k = perf_readings e (Suc k) - perf_readings e k"

section \<open>The plot and the entry point\<close>

text \<open>
  What \<^verbatim>\<open>plot_results\<close> puts on the screen. A bar of \<^verbatim>\<open>plt.bar(names, times, color=[...])\<close>
  over category names sits at its index, 0.8 wide, so its left edge is 0.4 before the
  index; the colour list is cycled. An annotation stands for the text
  \<^verbatim>\<open>f'{yval:.4f}s'\<close> at its position (the number is kept, its rendering is not modelled).
\<close>

record bar =
  bar_label :: string
  bar_x :: real
  bar_width :: real
  bar_height :: real
  bar_color :: string

record annotation =
  text_x :: real
  text_y :: real
  text_value :: real

record chart =
  figsize :: "nat \<times> nat"
  chart_bars :: "bar list"
  ylabel :: string
  title :: string
  annotations :: "annotation list"
  shown :: bool

definition palette :: "string list" where
  "palette = [''#6929c4'', ''#009d9a'', ''#1192e8'']"

definition plt_bar :: "string list \<Rightarrow> real list \<Rightarrow> string list \<Rightarrow> bar list" where
  "plt_bar names heights colors =
     map (\<lambda>i. \<lparr>bar_label = names ! i, bar_x = real i - 0.4, bar_width = 0.8,
                bar_height = heights ! i, bar_color = colors ! (i mod length colors)\<rparr>)
         [0..<length names]"

definition plot_results :: "(string \<times> real) list \<Rightarrow> chart" where
  "plot_results res =
     (let names = map fst res;
          durations = map snd res;
          bars = plt_bar names durations palette
      in \<lparr>figsize = (10, 6),
          chart_bars = bars,
          ylabel = ''Time to Generate (Seconds)'',
          title = ''QRNG Simulation Time Comparison'',
          annotations =
            map (\<lambda>b. let yval = bar_height b
                      in \<lparr>text_x = bar_x b + bar_width b / 2, text_y = yval, text_value = yval\<rparr>)
                bars,
          shown = True\<rparr>)"

text \<open>
  What a started process is given: its command line and its environment variables. The
  \<^verbatim>\<open>__main__\<close> block reads neither.
\<close>

record process =
  argv :: "string list"
  environ :: "(string \<times> string) list"

text \<open>
  The \<^verbatim>\<open>__main__\<close> block: the final state of the benchmark and the chart shown, or the
  exception that ended the run before any chart.
\<close>

definition main :: "process \<Rightarrow> env \<Rightarrow> exn + bench_state \<times> chart" where
  "main p e =
     (case run_benchmark e (Some 2000) of
        Inl err \<Rightarrow> Inl err
      | Inr st \<Rightarrow> (let data = results st in Inr (st, plot_results data)))"

section \<open>Reference definitions\<close>

text \<open>
  The \<open>k\<close>-character zero-padded binary representation of a number, written down
  independently of the formatting code: the last character is the lowest bit, and the
  characters before it represent the number halved, in \<open>k - 1\<close> places.
\<close>

fun zero_padded_binary :: "nat \<Rightarrow> nat \<Rightarrow> string" where
  "zero_padded_binary 0 n = []"
| "zero_padded_binary (Suc k) n = zero_padded_binary k (n div 2) @ [bit_char (n mod 2)]"

text \<open>The number a string of binary digits stands for, most significant digit first.\<close>

definition binary_value :: "string \<Rightarrow> nat" where
  "binary_value s = foldl (\<lambda>acc c. 2 * acc + (if c = CHR ''1'' then 1 else 0)) 0 s"





section \<open>Sample environments\<close>

text \<open>
  Concrete worlds on which the theorems below are exercised. In all of them the simulator
  answers a job with one outcome per shot, alternating, unless said otherwise.
\<close>

definition alternating_memory :: "job \<Rightarrow> exn + string list" where
  "alternating_memory j = Inr (map (\<lambda>i. if even i then ''0'' else ''1'') [0..<nat (shots j)])"

text \<open>The clock advances by a second per reading; the remote request times out.\<close>

definition timeout_env :: env where
  "timeout_env =
     \<lparr>perf_readings = (\<lambda>k. real k),
      os_entropy = (\<lambda>i. if even i then 0xA5 else 0x3C),
      aer_run = alternating_memory,
      http_get = (\<lambda>r. Inl (LibraryError ''ReadTimeout'')),
      exn_text = (\<lambda>err. ''timed out'')\<rparr>"

text \<open>
  The remote request times out, and the second and third clock readings coincide: the
  classical generator's call takes no measurable time.
\<close>

definition stalled_clock_env :: env where
  "stalled_clock_env =
     \<lparr>perf_readings = (\<lambda>k. if k < 3 then real k else real (k - 1)),
      os_entropy = (\<lambda>i. if even i then 0xA5 else 0x3C),
      aer_run = alternating_memory,
      http_get = (\<lambda>r. Inl (LibraryError ''ReadTimeout'')),
      exn_text = (\<lambda>err. ''timed out'')\<rparr>"

text \<open>A backend whose memory holds a text with the marker in it, not at the start.\<close>

definition marker_memory_env :: env where
  "marker_memory_env =
     \<lparr>perf_readings = (\<lambda>k. real k),
      os_entropy = (\<lambda>i. 0),
      aer_run = (\<lambda>j. Inr [''01'', ''Error'']),
      http_get = (\<lambda>r. Inl (LibraryError ''ReadTimeout'')),
      exn_text = (\<lambda>err. ''timed out'')\<rparr>"










text \<open>The remote API answers every request with \<^verbatim>\<open>{"data": [255, 0]}\<close>.\<close>

definition two_bytes_env :: env where
  "two_bytes_env =
     \<lparr>perf_readings = (\<lambda>k. real k),
      os_entropy = (\<lambda>i. if even i then 0xA5 else 0x3C),
      aer_run = alternating_memory,
      http_get = (\<lambda>r. Inr \<lparr>status_code = 200,
                              json_result = Inr (JObject [(''data'', JArray [JInt 255, JInt 0])])\<rparr>),
      exn_text = (\<lambda>err. ''failed'')\<rparr>"

section \<open>Formatting: lemmas\<close>

lemma length_zero_padded_binary: "length (zero_padded_binary k n) = k"
  by (induction k arbitrary: n) auto

lemma zero_padded_binary_zero: "zero_padded_binary k 0 = replicate k (CHR ''0'')"
  by (induction k) (auto simp: bit_char_def replicate_append_same)

lemma set_zero_padded_binary: "set (zero_padded_binary k n) \<subseteq> {CHR ''0'', CHR ''1''}"
  by (induction k arbitrary: n) (auto simp: bit_char_def)

lemma binary_value_snoc:
  "binary_value (s @ [c]) = 2 * binary_value s + (if c = CHR ''1'' then 1 else 0)"
  by (simp add: binary_value_def)

lemma binary_value_zero_padded: "binary_value (zero_padded_binary k n) = n mod 2 ^ k"
proof (induction k arbitrary: n)
  case 0
  then show ?case by (simp add: binary_value_def)
next
  case (Suc k)
  have "n mod 2 ^ Suc k = 2 * (n div 2 mod 2 ^ k) + n mod 2"
    by (simp add: mod_mult2_eq)
  with Suc.IH [of "n div 2"] show ?case
    by (auto simp: binary_value_snoc bit_char_def)
qed

lemma set_bin_digits: "set (bin_digits n) \<subseteq> {CHR ''0'', CHR ''1''}"
  by (induction n rule: bin_digits.induct) (subst bin_digits.simps, auto simp: bit_char_def)

lemma padded_bin_digits:
  "0 < k \<Longrightarrow> n < 2 ^ k \<Longrightarrow>
     replicate (k - length (bin_digits n)) (CHR ''0'') @ bin_digits n = zero_padded_binary k n"
proof (induction k arbitrary: n)
  case 0
  then show ?case by simp
next
  case (Suc k)
  show ?case
  proof (cases "n < 2")
    case True
    then have "n div 2 = 0" by simp
    with True show ?thesis
      by (subst (1 2) bin_digits.simps) (simp add: zero_padded_binary_zero)
  next
    case False
    with Suc.prems have k: "0 < k" by (cases k) auto
    from Suc.prems have lt: "n div 2 < 2 ^ k" by auto
    have len: "length (bin_digits n) = Suc (length (bin_digits (n div 2)))"
      using False by (subst bin_digits.simps) simp
    have "replicate (Suc k - length (bin_digits n)) (CHR ''0'') @ bin_digits n =
          (replicate (k - length (bin_digits (n div 2))) (CHR ''0'') @ bin_digits (n div 2))
            @ [bit_char (n mod 2)]"
      using False unfolding len by (subst (2) bin_digits.simps) simp
    also have "\<dots> = zero_padded_binary k (n div 2) @ [bit_char (n mod 2)]"
      using Suc.IH [OF k lt] by simp
    finally show ?thesis by simp
  qed
qed

lemma format_08b_byte:
  assumes "0 \<le> x" and "x < 256"
  shows "format_08b x = zero_padded_binary 8 (nat x)"
proof -
  from assms have "nat x < 2 ^ 8" by simp
  from padded_bin_digits [OF _ this] assms show ?thesis
    by (simp add: format_08b_def)
qed

lemma format_08b_word: "format_08b (uint (b :: 8 word)) = zero_padded_binary 8 (unat b)"
proof -
  have "uint b < 2 ^ LENGTH(8)" by (rule uint_lt2p)
  then have "uint b < 256" by simp
  then show ?thesis by (simp add: format_08b_byte)
qed

lemma set_format_08b: "set (format_08b x) \<subseteq> {CHR ''-'', CHR ''0'', CHR ''1''}"
  using set_bin_digits [of "nat \<bar>x\<bar>"] by (auto simp: format_08b_def Let_def)

lemma length_concat_fixed:
  "(\<And>x. x \<in> set xs \<Longrightarrow> length (f x) = w) \<Longrightarrow> length (concat (map f xs)) = w * length xs"
  by (induction xs) auto

lemma sublist_char_mem: "sublist xs ys \<Longrightarrow> c \<in> set xs \<Longrightarrow> c \<in> set ys"
  using set_mono_sublist by fastforce

lemma no_Error_if_no_E: "CHR ''E'' \<notin> set s \<Longrightarrow> \<not> sublist ''Error'' s"
  using sublist_char_mem [of "''Error''" s "CHR ''E''"] by auto

section \<open>The classical generator\<close>

lemma classical_bytes:
  assumes "0 \<le> n"
  shows "classical_generate_bits e n =
           Inr (take (nat n) (concat (map (\<lambda>x. zero_padded_binary 8 (unat x))
                                          (map (os_entropy e) [0..<nat (n div 8 + 1)]))))"
proof -
  from assms have "0 \<le> n div 8" by simp
  then have "\<not> n div 8 + 1 < 0" by simp
  with assms show ?thesis
    by (simp add: classical_generate_bits_def token_bytes_def slice_to_def format_08b_word comp_def)
qed

lemma classical_sample: "generate_bits timeout_env ClassicalRNG 8 = Inr ''10100101''"
  by code_simp

text \<open>
  C1. For every requested bit count \<open>n \<ge> 1\<close> the classical generator returns (it raises
  nothing) a string of exactly \<open>n\<close> characters, each \<open>0\<close> or \<open>1\<close>, in which the failure
  marker \<open>Error\<close> does not occur.
\<close>

theorem classical_generate_bits_length:
  assumes "1 \<le> n"
  shows "\<exists>s. generate_bits e ClassicalRNG n = Inr s \<and> int (length s) = n
             \<and> set s \<subseteq> {CHR ''0'', CHR ''1''} \<and> \<not> sublist ''Error'' s"
proof -
  define pieces where
    "pieces = map (\<lambda>x. zero_padded_binary 8 (unat x)) (map (os_entropy e) [0..<nat (n div 8 + 1)])"
  define s where "s = take (nat n) (concat pieces)"
  from assms have n0: "0 \<le> n" by simp
  have run: "generate_bits e ClassicalRNG n = Inr s"
    using classical_bytes [OF n0] by (simp add: s_def pieces_def)
  have "length (concat pieces) = 8 * nat (n div 8 + 1)"
    unfolding pieces_def map_map
    by (subst length_concat_fixed [where w = 8]) (simp_all add: length_zero_padded_binary)
  moreover have "nat n \<le> 8 * nat (n div 8 + 1)"
    using n0 by linarith
  ultimately have len: "int (length s) = n"
    using n0 by (simp add: s_def)
  have "set (concat pieces) \<subseteq> {CHR ''0'', CHR ''1''}"
    using set_zero_padded_binary by (auto simp: pieces_def)
  then have chars: "set s \<subseteq> {CHR ''0'', CHR ''1''}"
    using set_take_subset [of "nat n" "concat pieces"] by (auto simp: s_def)
  then have "CHR ''E'' \<notin> set s" by auto
  then have "\<not> sublist ''Error'' s" by (rule no_Error_if_no_E)
  with run len chars show ?thesis by blast
qed

theorem classical_generate_bits_length_witness:
  "(1::int) \<le> 8 \<and> generate_bits timeout_env ClassicalRNG 8 = Inr ''10100101''
     \<and> (\<exists>s. generate_bits timeout_env ClassicalRNG 8 = Inr s \<and> int (length s) = 8
             \<and> set s \<subseteq> {CHR ''0'', CHR ''1''} \<and> \<not> sublist ''Error'' s)"
  using classical_generate_bits_length [of 8 timeout_env] classical_sample by simp

section \<open>The remote generator\<close>

lemma format_each_ints: "format_each (map JInt xs) = Inr (map format_08b xs)"
  by (induction xs) auto

lemma anu_try_success:
  assumes "http_get e (anu_request url n) = Inr resp"
    and "raise_for_status resp = Inr ()"
    and "json_result resp = Inr (JObject kvs)"
    and "map_of kvs ''data'' = Some (JArray (map JInt xs))"
  shows "anu_try e url n = Inr (slice_to (concat (map format_08b xs)) n)"
  using assms by (simp add: anu_try_def format_each_ints)

text \<open>
  C2. When the request succeeds (a response whose status is no 4xx or 5xx, whose body is
  a JSON object with a list of integers in 0..255 under \<open>data\<close>), the generator has asked
  for \<open>num_bits div 8 + 1\<close> values of type \<open>uint8\<close>, and returns the first \<open>num_bits\<close>
  characters of the concatenation, in order, of the 8-character zero-padded binary
  representations of the values; when the response holds at least the values asked for,
  these are exactly \<open>num_bits\<close> characters. The sample below is the response
  \<^verbatim>\<open>{"data": [255, 0]}\<close> to a request of 9 bits.
\<close>

theorem anu_generate_bits_success:
  assumes "0 \<le> n"
    and "http_get e (anu_request url n) = Inr resp"
    and "raise_for_status resp = Inr ()"
    and "json_result resp = Inr (JObject kvs)"
    and "map_of kvs ''data'' = Some (JArray (map JInt xs))"
    and "\<forall>x\<in>set xs. 0 \<le> x \<and> x < 256"
  shows "req_params (anu_request url n) = [(''length'', PInt (n div 8 + 1)), (''type'', PStr ''uint8'')]
       \<and> generate_bits e (AnuWebQRNG url) n =
           Inr (take (nat n) (concat (map (\<lambda>x. zero_padded_binary 8 (nat x)) xs)))
       \<and> (n div 8 + 1 \<le> int (length xs) \<longrightarrow>
            int (length (take (nat n) (concat (map (\<lambda>x. zero_padded_binary 8 (nat x)) xs)))) = n)"
proof -
  have fmt: "map format_08b xs = map (\<lambda>x. zero_padded_binary 8 (nat x)) xs"
    using assms(6) by (intro map_cong refl) (simp add: format_08b_byte)
  have gen: "generate_bits e (AnuWebQRNG url) n =
           Inr (take (nat n) (concat (map (\<lambda>x. zero_padded_binary 8 (nat x)) xs)))"
    using anu_try_success [OF assms(2-5)] assms(1)
    by (simp add: anu_generate_bits_def fmt slice_to_def)
  have len: "length (concat (map (\<lambda>x. zero_padded_binary 8 (nat x)) xs)) = 8 * length xs"
    by (rule length_concat_fixed) (simp add: length_zero_padded_binary)
  have "n div 8 + 1 \<le> int (length xs) \<Longrightarrow> nat n \<le> 8 * length xs"
    using assms(1) by linarith
  with len assms(1) have "n div 8 + 1 \<le> int (length xs) \<longrightarrow>
            int (length (take (nat n) (concat (map (\<lambda>x. zero_padded_binary 8 (nat x)) xs)))) = n"
    by simp
  with gen show ?thesis by (simp add: anu_request_def)
qed

lemma two_bytes_sample: "generate_bits two_bytes_env (AnuWebQRNG anu_url) 9 = Inr ''111111110''"
  by code_simp

theorem anu_generate_bits_success_witness:
  "generate_bits two_bytes_env (AnuWebQRNG anu_url) 9 = Inr ''111111110''
   \<and> req_params (anu_request anu_url 9) = [(''length'', PInt 2), (''type'', PStr ''uint8'')]
   \<and> length ''111111110'' = 9"
proof -
  let ?resp = "\<lparr>status_code = 200, json_result = Inr (JObject [(''data'', JArray [JInt 255, JInt 0])])\<rparr>"
  have 1: "(0::int) \<le> 9" by simp
  have 2: "http_get two_bytes_env (anu_request anu_url 9) = Inr ?resp"
    by (simp add: two_bytes_env_def)
  have 3: "raise_for_status ?resp = Inr ()" by (simp add: raise_for_status_def)
  have 4: "json_result ?resp = Inr (JObject [(''data'', JArray [JInt 255, JInt 0])])" by simp
  have 5: "map_of [(''data'', JArray [JInt 255, JInt 0])] ''data'' = Some (JArray (map JInt [255, 0]))"
    by simp
  have 6: "\<forall>x\<in>set [255, 0::int]. 0 \<le> x \<and> x < 256" by simp
  from anu_generate_bits_success [OF 1 2 3 4 5 6] two_bytes_sample
  show ?thesis by simp
qed

lemma anu_try_Inl_iff:
  "anu_try e url n = Inl err \<longleftrightarrow>
     http_get e (anu_request url n) = Inl err
   \<or> (\<exists>resp. http_get e (anu_request url n) = Inr resp \<and>
        (raise_for_status resp = Inl err
       \<or> raise_for_status resp = Inr () \<and>
           (json_result resp = Inl err
          \<or> (\<exists>doc. json_result resp = Inr doc \<and>
               (subscript_data doc = Inl err
              \<or> (\<exists>d. subscript_data doc = Inr d \<and>
                   (iterate d = Inl err
                  \<or> (\<exists>xs. iterate d = Inr xs \<and> format_each xs = Inl err))))))))"
  by (auto simp: anu_try_def split: sum.splits)

lemma format_each_chars:
  "format_each xs = Inr strs \<Longrightarrow> set (concat strs) \<subseteq> {CHR ''-'', CHR ''0'', CHR ''1''}"
proof (induction xs arbitrary: strs)
  case Nil
  then show ?case by simp
next
  case (Cons x xs)
  from Cons.prems obtain s ss where s: "format_json_08b x = Inr s"
    and ss: "format_each xs = Inr ss" and strs: "strs = s # ss"
    by (auto split: sum.splits)
  from s have "set s \<subseteq> {CHR ''-'', CHR ''0'', CHR ''1''}"
    using set_format_08b by (cases x) auto
  with Cons.IH [OF ss] strs show ?case by simp
qed

lemma set_slice_to: "set (slice_to s n) \<subseteq> set s"
  by (auto simp: slice_to_def dest: in_set_takeD)

lemma anu_output_cases:
  assumes "anu_generate_bits e url n = Inr bits"
  shows "prefix ''Error: '' bits \<or> set bits \<subseteq> {CHR ''-'', CHR ''0'', CHR ''1''}"
proof (cases "anu_try e url n")
  case (Inl err)
  with assms show ?thesis by (auto simp: anu_generate_bits_def)
next
  case (Inr s)
  then obtain strs xs where "format_each xs = Inr strs" and "s = slice_to (concat strs) n"
    by (auto simp: anu_try_def split: sum.splits)
  with format_each_chars [of xs strs] set_slice_to [of "concat strs" n]
  have "set s \<subseteq> {CHR ''-'', CHR ''0'', CHR ''1''}" by blast
  with Inr assms show ?thesis by (simp add: anu_generate_bits_def)
qed









lemma timeout_sample: "generate_bits timeout_env (AnuWebQRNG anu_url) 2000 = Inr ''Error: timed out''"
  by (simp add: anu_generate_bits_def anu_try_def timeout_env_def)










section \<open>The benchmark loop\<close>

lemma bench_step_Inr:
  assumes "bench_step e n (name, g) st = Inr st'"
  obtains bits where "generate_bits e g n = Inr bits" and "sublist ''Error'' bits"
      and "st' = st\<lparr>clock_reads := clock_reads st + 2,
                     stdout := stdout st @ [Text (failed_row name bits)]\<rparr>"
  | bits where "generate_bits e g n = Inr bits" and "\<not> sublist ''Error'' bits"
      and "duration_at e (clock_reads st) \<noteq> 0"
      and "st' = st\<lparr>clock_reads := clock_reads st + 2,
                     results := AList.update name (duration_at e (clock_reads st)) (results st),
                     stdout := stdout st @ [ResultRow name (duration_at e (clock_reads st))
                        (real_of_int n / duration_at e (clock_reads st))]\<rparr>"
  using assms
  by (auto simp: bench_step_def perf_counter_def duration_at_def Let_def
           split: sum.splits if_splits)

lemma bench_step_failed:
  assumes "generate_bits e g n = Inr bits" and "sublist ''Error'' bits"
  shows "bench_step e n (name, g) st =
           Inr (st\<lparr>clock_reads := clock_reads st + 2,
                    stdout := stdout st @ [Text (failed_row name bits)]\<rparr>)"
  using assms by (simp add: bench_step_def perf_counter_def Let_def)

lemma bench_step_zero:
  assumes "generate_bits e g n = Inr bits" and "\<not> sublist ''Error'' bits"
    and "duration_at e (clock_reads st) = 0"
  shows "bench_step e n (name, g) st = Inl ZeroDivisionError"
  using assms by (simp add: bench_step_def perf_counter_def Let_def duration_at_def)

lemma bench_step_raise:
  assumes "generate_bits e g n = Inl err"
  shows "bench_step e n (name, g) st = Inl err"
  using assms by (simp add: bench_step_def perf_counter_def Let_def)

lemma bench_step_clock:
  "bench_step e n ng st = Inr st' \<Longrightarrow> clock_reads st' = clock_reads st + 2"
  by (cases ng) (auto elim!: bench_step_Inr)

lemma bench_step_stdout:
  "bench_step e n ng st = Inr st' \<Longrightarrow> set (stdout st) \<subseteq> set (stdout st')"
  by (cases ng) (auto elim!: bench_step_Inr)

lemma bench_step_other:
  "bench_step e n ng st = Inr st' \<Longrightarrow> k \<noteq> fst ng \<Longrightarrow>
     map_of (results st') k = map_of (results st) k"
  by (cases ng) (auto elim!: bench_step_Inr simp: update_conv')

lemma bench_step_distinct:
  "bench_step e n ng st = Inr st' \<Longrightarrow> distinct (map fst (results st)) \<Longrightarrow>
     distinct (map fst (results st'))"
  by (cases ng) (auto elim!: bench_step_Inr simp: distinct_update)

lemma bench_loop_clock:
  "bench_loop e n gs st = Inr st' \<Longrightarrow> clock_reads st' = clock_reads st + 2 * length gs"
  by (induction gs arbitrary: st) (auto split: sum.splits dest: bench_step_clock)

lemma bench_loop_stdout:
  "bench_loop e n gs st = Inr st' \<Longrightarrow> set (stdout st) \<subseteq> set (stdout st')"
proof (induction gs arbitrary: st)
  case Nil
  then show ?case by simp
next
  case (Cons ng gs)
  then show ?case
    by (auto split: sum.splits dest!: bench_step_stdout)
qed

lemma bench_loop_other:
  "bench_loop e n gs st = Inr st' \<Longrightarrow> k \<notin> fst ` set gs \<Longrightarrow>
     map_of (results st') k = map_of (results st) k"
proof (induction gs arbitrary: st)
  case Nil
  then show ?case by simp
next
  case (Cons ng gs)
  from Cons.prems(1) obtain st1 where s: "bench_step e n ng st = Inr st1"
    and l: "bench_loop e n gs st1 = Inr st'"
    by (auto split: sum.splits)
  from Cons.prems(2) have "k \<noteq> fst ng" "k \<notin> fst ` set gs" by auto
  with Cons.IH [OF l] bench_step_other [OF s] show ?case by simp
qed

lemma bench_loop_distinct:
  "bench_loop e n gs st = Inr st' \<Longrightarrow> distinct (map fst (results st)) \<Longrightarrow>
     distinct (map fst (results st'))"
  by (induction gs arbitrary: st) (auto split: sum.splits dest: bench_step_distinct)

text \<open>The turn of a generator that fails.\<close>

lemma bench_loop_failed:
  assumes "bench_loop e n gs st = Inr st'"
    and "distinct (map fst gs)"
    and "(name, g) \<in> set gs"
    and "generate_bits e g n = Inr bits"
    and "sublist ''Error'' bits"
  shows "map_of (results st') name = map_of (results st) name
       \<and> Text (failed_row name bits) \<in> set (stdout st')"
  using assms
proof (induction gs arbitrary: st)
  case Nil
  then show ?case by simp
next
  case (Cons ng gs)
  from Cons.prems(1) obtain st1 where s: "bench_step e n ng st = Inr st1"
    and l: "bench_loop e n gs st1 = Inr st'"
    by (auto split: sum.splits)
  show ?case
  proof (cases "ng = (name, g)")
    case True
    with Cons.prems(2) have notin: "name \<notin> fst ` set gs" by auto
    from s True Cons.prems(4,5)
    have st1: "st1 = st\<lparr>clock_reads := clock_reads st + 2,
                         stdout := stdout st @ [Text (failed_row name bits)]\<rparr>"
      by (simp add: bench_step_failed)
    from bench_loop_other [OF l notin] st1
    have "map_of (results st') name = map_of (results st) name" by simp
    moreover from bench_loop_stdout [OF l] st1
    have "Text (failed_row name bits) \<in> set (stdout st')" by auto
    ultimately show ?thesis by simp
  next
    case False
    with Cons.prems(3) have mem: "(name, g) \<in> set gs" by auto
    then have "name \<in> fst ` set gs" by force
    moreover from Cons.prems(2) have "fst ng \<notin> fst ` set gs" by simp
    ultimately have "name \<noteq> fst ng" by blast
    from bench_step_other [OF s this]
    have "map_of (results st1) name = map_of (results st) name" .
    moreover from Cons.prems(2) have "distinct (map fst gs)" by simp
    from Cons.IH [OF l this mem Cons.prems(4,5)]
    have "map_of (results st') name = map_of (results st1) name
       \<and> Text (failed_row name bits) \<in> set (stdout st')" .
    ultimately show ?thesis by simp
  qed
qed

text \<open>The turn of a generator that succeeds: the \<open>i\<close>-th in the list.\<close>

lemma bench_loop_succeeded:
  assumes "bench_loop e n gs st = Inr st'"
    and "distinct (map fst gs)"
    and "i < length gs"
    and "gs ! i = (name, g)"
    and "generate_bits e g n = Inr bits"
    and "\<not> sublist ''Error'' bits"
  shows "map_of (results st') name = Some (duration_at e (clock_reads st + 2 * i))
       \<and> duration_at e (clock_reads st + 2 * i) \<noteq> 0"
  using assms
proof (induction gs arbitrary: st i)
  case Nil
  then show ?case by simp
next
  case (Cons ng gs)
  from Cons.prems(1) obtain st1 where s: "bench_step e n ng st = Inr st1"
    and l: "bench_loop e n gs st1 = Inr st'"
    by (auto split: sum.splits)
  show ?case
  proof (cases i)
    case 0
    with Cons.prems(4) have ng: "ng = (name, g)" by simp
    with Cons.prems(2) have notin: "name \<notin> fst ` set gs" by auto
    from s [unfolded ng] Cons.prems(5,6)
    have "map_of (results st1) name = Some (duration_at e (clock_reads st))
        \<and> duration_at e (clock_reads st) \<noteq> 0"
      by (auto elim!: bench_step_Inr simp: update_conv')
    with bench_loop_other [OF l notin] 0 show ?thesis by simp
  next
    case (Suc j)
    with Cons.prems(3,4) have j: "j < length gs" "gs ! j = (name, g)" by simp_all
    from Cons.prems(2) have "distinct (map fst gs)" by simp
    from Cons.IH [OF l this j Cons.prems(5,6)] bench_step_clock [OF s] Suc
    show ?thesis by simp
  qed
qed

lemma distinct_keys_one_entry:
  "distinct (map fst al) \<Longrightarrow> map_of al k = Some v \<Longrightarrow> filter (\<lambda>kv. fst kv = k) al = [(k, v)]"
proof (induction al)
  case Nil
  then show ?case by simp
next
  case (Cons a al)
  show ?case
  proof (cases "fst a = k")
    case True
    with Cons.prems have "a = (k, v)" by (cases a) auto
    moreover from True Cons.prems(1) have "k \<notin> fst ` set al" by simp
    then have "\<forall>kv\<in>set al. fst kv \<noteq> k" by force
    then have "filter (\<lambda>kv. fst kv = k) al = []"
      by (simp add: filter_empty_conv)
    ultimately show ?thesis by simp
  next
    case False
    with Cons show ?thesis by (cases a) auto
  qed
qed

lemma distinct_generators: "distinct (map fst generators)"
  by (simp add: generators_def)


lemma bench_step_succeeded:
  assumes "generate_bits e g n = Inr bits" and "\<not> sublist ''Error'' bits"
    and "duration_at e (clock_reads st) \<noteq> 0"
  shows "bench_step e n (name, g) st =
           Inr (st\<lparr>clock_reads := clock_reads st + 2,
                    results := AList.update name (duration_at e (clock_reads st)) (results st),
                    stdout := stdout st @ [ResultRow name (duration_at e (clock_reads st))
                        (real_of_int n / duration_at e (clock_reads st))]\<rparr>)"
  using assms by (simp add: bench_step_def perf_counter_def Let_def duration_at_def)

lemma bench_loop_append:
  "bench_loop e n (xs @ ys) st =
     (case bench_loop e n xs st of Inl err \<Rightarrow> Inl err | Inr st1 \<Rightarrow> bench_loop e n ys st1)"
  by (induction xs arbitrary: st) (auto split: sum.splits)

lemma bench_loop_returns:
  assumes "\<forall>ng\<in>set gs. \<exists>bits. generate_bits e (snd ng) n = Inr bits"
    and "\<forall>k. duration_at e k \<noteq> 0"
  shows "\<exists>st'. bench_loop e n gs st = Inr st'"
  using assms(1)
proof (induction gs arbitrary: st)
  case Nil
  then show ?case by simp
next
  case (Cons ng gs)
  obtain name g where ng: "ng = (name, g)" by (cases ng)
  with Cons.prems obtain bits where b: "generate_bits e g n = Inr bits" by auto
  have "\<exists>st1. bench_step e n (name, g) st = Inr st1"
  proof (cases "sublist ''Error'' bits")
    case True
    from bench_step_failed [OF b True] show ?thesis by blast
  next
    case False
    from bench_step_succeeded [OF b False] assms(2) show ?thesis by blast
  qed
  then obtain st1 where "bench_step e n ng st = Inr st1" using ng by blast
  moreover from Cons.prems have "\<forall>ng\<in>set gs. \<exists>bits. generate_bits e (snd ng) n = Inr bits"
    by simp
  from Cons.IH [OF this] obtain st' where "bench_loop e n gs st1 = Inr st'" by blast
  ultimately show ?case by simp
qed

lemma prefix_Error_sublist: "prefix ''Error: '' bits \<Longrightarrow> sublist ''Error'' bits"
proof -
  assume "prefix ''Error: '' bits"
  then obtain rest where "bits = ''Error: '' @ rest" by (auto simp: prefix_def)
  then have "bits = [] @ ''Error'' @ ('': '' @ rest)" by simp
  then show ?thesis unfolding sublist_def by blast
qed

lemma failed_row_FAILED: "sublist ''FAILED'' (failed_row name bits)"
proof -
  have "failed_row name bits = (ljust 20 name @ '' | '') @ ''FAILED'' @ (''     | '' @ bits)"
    by (simp add: failed_row_def)
  then show ?thesis unfolding sublist_def by blast
qed

lemma run_benchmark_Some: "run_benchmark e (Some n) = bench_loop e n generators (initial_state n)"
  by (simp add: run_benchmark_def)

section \<open>The benchmark: what is returned and printed\<close>

lemma anu_generate_bits_returns: "\<exists>s. anu_generate_bits e url n = Inr s"
  by (cases "anu_try e url n") (simp_all add: anu_generate_bits_def)

lemma classical_generate_bits_returns:
  assumes "- 8 \<le> n"
  shows "\<exists>s. classical_generate_bits e n = Inr s"
proof -
  from assms have "\<not> n div 8 + 1 < 0" by linarith
  then show ?thesis by (simp add: classical_generate_bits_def token_bytes_def)
qed

lemma run_benchmark_returns:
  assumes "aer_run e (quantum_job n) = Inr mem"
    and "- 8 \<le> n"
    and "\<forall>k. duration_at e k \<noteq> 0"
  shows "\<exists>st. run_benchmark e (Some n) = Inr st"
proof -
  have "\<forall>ng\<in>set generators. \<exists>bits. generate_bits e (snd ng) n = Inr bits"
    using assms(1) classical_generate_bits_returns [OF assms(2)] anu_generate_bits_returns
    by (simp add: generators_def quantum_generate_bits_def)
  from bench_loop_returns [OF this assms(3)] show ?thesis
    by (simp add: run_benchmark_Some)
qed

lemma timeout_env_durations: "duration_at timeout_env k \<noteq> 0"
  by (simp add: duration_at_def timeout_env_def)

lemma timeout_env_returns: "- 8 \<le> n \<Longrightarrow> \<exists>st. run_benchmark timeout_env (Some n) = Inr st"
  by (rule run_benchmark_returns [where mem = "map (\<lambda>i. if even i then ''0'' else ''1'') [0..<nat n]"])
     (simp_all add: timeout_env_durations, simp add: timeout_env_def alternating_memory_def quantum_job_def)

text \<open>
  C4. When \<^verbatim>\<open>run_benchmark\<close> returns, a generator of the registry whose output begins
  with \<open>Error: \<close> has no entry under its name in the returned mapping (no key at all, so
  neither a zero nor a null), and its failure row, which contains \<open>FAILED\<close>, was printed.
\<close>

theorem run_benchmark_excludes_failed:
  assumes "run_benchmark e (Some n) = Inr st"
    and "(name, g) \<in> set generators"
    and "generate_bits e g n = Inr bits"
    and "prefix ''Error: '' bits"
  shows "name \<notin> fst ` set (results st)
       \<and> Text (failed_row name bits) \<in> set (stdout st)
       \<and> sublist ''FAILED'' (failed_row name bits)"
proof -
  from assms(1) have l: "bench_loop e n generators (initial_state n) = Inr st"
    by (simp add: run_benchmark_Some)
  from assms(4) have "sublist ''Error'' bits" by (rule prefix_Error_sublist)
  from bench_loop_failed [OF l distinct_generators assms(2,3) this]
  have "map_of (results st) name = None" and "Text (failed_row name bits) \<in> set (stdout st)"
    by (simp_all add: initial_state_def)
  then show ?thesis by (simp add: map_of_eq_None_iff failed_row_FAILED)
qed

theorem run_benchmark_excludes_failed_witness:
  "\<exists>st. run_benchmark timeout_env (Some 2000) = Inr st
      \<and> generate_bits timeout_env (AnuWebQRNG anu_url) 2000 = Inr ''Error: timed out''
      \<and> ''Remote ANU API'' \<notin> fst ` set (results st)
      \<and> Text ''Remote ANU API       | FAILED     | Error: timed out'' \<in> set (stdout st)"
proof -
  from timeout_env_returns [of 2000]
  obtain st where st: "run_benchmark timeout_env (Some 2000) = Inr st" by auto
  have mem: "(''Remote ANU API'', AnuWebQRNG anu_url) \<in> set generators"
    by (simp add: generators_def)
  have pre: "prefix ''Error: '' ''Error: timed out''" by simp
  have row: "failed_row ''Remote ANU API'' ''Error: timed out'' =
               ''Remote ANU API       | FAILED     | Error: timed out''"
    by code_simp
  from run_benchmark_excludes_failed [OF st mem timeout_sample pre] st timeout_sample row
  show ?thesis by simp
qed

lemma bench_loop_key_iff:
  assumes "bench_loop e n gs st = Inr st'"
    and "distinct (map fst gs)"
    and "(name, g) \<in> set gs"
    and "generate_bits e g n = Inr bits"
    and "name \<notin> fst ` set (results st)"
  shows "name \<in> fst ` set (results st') \<longleftrightarrow> \<not> sublist ''Error'' bits"
proof (cases "sublist ''Error'' bits")
  case True
  from bench_loop_failed [OF assms(1-4) True] assms(5)
  have "map_of (results st') name = None" by (simp add: map_of_eq_None_iff)
  with True show ?thesis by (simp add: map_of_eq_None_iff)
next
  case False
  from assms(3) obtain i where "i < length gs" "gs ! i = (name, g)"
    by (auto simp: in_set_conv_nth)
  from bench_loop_succeeded [OF assms(1,2) this assms(4) False]
  have "map_of (results st') name \<noteq> None" by simp
  with False show ?thesis by (simp add: map_of_eq_None_iff)
qed

text \<open>
  C9. The Runner's test is whether the five characters \<open>Error\<close> occur anywhere in the
  returned string, not whether it begins with \<open>Error: \<close>: when \<^verbatim>\<open>run_benchmark\<close> returns,
  a generator of the registry has an entry in the mapping exactly when its output does not
  contain \<open>Error\<close>, and an output that contains it at any position gets the failure row.
  The sample is an output with the marker in the middle.
\<close>

theorem run_benchmark_marker_anywhere:
  assumes "run_benchmark e (Some n) = Inr st"
    and "(name, g) \<in> set generators"
    and "generate_bits e g n = Inr bits"
  shows "(name \<in> fst ` set (results st) \<longleftrightarrow> \<not> sublist ''Error'' bits)
       \<and> (sublist ''Error'' bits \<longrightarrow> Text (failed_row name bits) \<in> set (stdout st))"
proof -
  from assms(1) have l: "bench_loop e n generators (initial_state n) = Inr st"
    by (simp add: run_benchmark_Some)
  have "name \<notin> fst ` set (results (initial_state n))" by (simp add: initial_state_def)
  from bench_loop_key_iff [OF l distinct_generators assms(2,3) this]
  have "name \<in> fst ` set (results st) \<longleftrightarrow> \<not> sublist ''Error'' bits" .
  moreover have "Text (failed_row name bits) \<in> set (stdout st)" if "sublist ''Error'' bits"
    using bench_loop_failed [OF l distinct_generators assms(2,3) that] by simp
  ultimately show ?thesis by blast
qed

lemma marker_memory_returns: "\<exists>st. run_benchmark marker_memory_env (Some 8) = Inr st"
  by (rule run_benchmark_returns [where mem = "[''01'', ''Error'']"])
     (simp_all add: marker_memory_env_def duration_at_def)

lemma marker_memory_sample:
  "generate_bits marker_memory_env QuantumSimulatorRNG 8 = Inr ''01Error''"
  by (simp add: quantum_generate_bits_def marker_memory_env_def)

theorem run_benchmark_marker_anywhere_witness:
  "\<exists>st. run_benchmark marker_memory_env (Some 8) = Inr st
      \<and> generate_bits marker_memory_env QuantumSimulatorRNG 8 = Inr ''01Error''
      \<and> sublist ''Error'' ''01Error'' \<and> \<not> prefix ''Error: '' ''01Error''
      \<and> ''Local Qiskit Sim'' \<notin> fst ` set (results st)
      \<and> Text ''Local Qiskit Sim     | FAILED     | 01Error'' \<in> set (stdout st)"
proof -
  from marker_memory_returns
  obtain st where st: "run_benchmark marker_memory_env (Some 8) = Inr st" by auto
  have mem: "(''Local Qiskit Sim'', QuantumSimulatorRNG) \<in> set generators"
    by (simp add: generators_def)
  have sub: "sublist ''Error'' ''01Error''" by code_simp
  have row: "failed_row ''Local Qiskit Sim'' ''01Error'' =
               ''Local Qiskit Sim     | FAILED     | 01Error''"
    by code_simp
  from run_benchmark_marker_anywhere [OF st mem marker_memory_sample] st marker_memory_sample sub row
  show ?thesis by simp
qed

lemma classical_output_chars:
  assumes "classical_generate_bits e n = Inr bits"
  shows "set bits \<subseteq> {CHR ''-'', CHR ''0'', CHR ''1''}"
proof -
  from assms have "\<exists>bs :: 8 word list. bits = slice_to (concat (map (\<lambda>x. format_08b (uint x)) bs)) n"
    by (auto simp: classical_generate_bits_def Let_def split: sum.splits)
  then obtain bs :: "8 word list"
    where "bits = slice_to (concat (map (\<lambda>x. format_08b (uint x)) bs)) n" ..
  moreover have "set (concat (map (\<lambda>x. format_08b (uint x)) bs)) \<subseteq> {CHR ''-'', CHR ''0'', CHR ''1''}"
    using set_format_08b by auto
  ultimately show ?thesis using set_slice_to by blast
qed

lemma registry_output_marker:
  assumes "(name, g) \<in> set generators"
    and "generate_bits e g n = Inr bits"
    and "\<not> prefix ''Error: '' bits"
    and "\<forall>mem. aer_run e (quantum_job n) = Inr mem \<longrightarrow> set (concat mem) \<subseteq> {CHR ''0'', CHR ''1''}"
  shows "\<not> sublist ''Error'' bits"
proof -
  have "CHR ''E'' \<notin> set bits"
  proof (cases g)
    case QuantumSimulatorRNG
    with assms(2) obtain mem where "aer_run e (quantum_job n) = Inr mem" "bits = concat mem"
      by (auto simp: quantum_generate_bits_def split: sum.splits)
    with assms(4) show ?thesis by auto
  next
    case (AnuWebQRNG url)
    with assms(2) anu_output_cases [of e url n bits] assms(3) show ?thesis by auto
  next
    case ClassicalRNG
    with assms(2) classical_output_chars [of e n bits] show ?thesis by auto
  qed
  then show ?thesis by (rule no_Error_if_no_E)
qed

text \<open>
  C5. When \<^verbatim>\<open>run_benchmark\<close> returns, the \<open>i\<close>-th generator of the registry, if its
  output is not a failure sentinel (does not begin with \<open>Error: \<close>), has exactly one entry
  in the returned mapping, keyed by its name; the value is the duration measured around
  its own call (the difference of clock readings \<open>2 * i + 1\<close> and \<open>2 * i\<close>) and is not
  negative. Two facts about the outside world are used: the simulator's outcomes are
  strings of \<open>0\<close> and \<open>1\<close>, and the performance counter does not go backwards.
\<close>

theorem run_benchmark_records_succeeded:
  assumes "run_benchmark e (Some n) = Inr st"
    and "i < length generators"
    and "generators ! i = (name, g)"
    and "generate_bits e g n = Inr bits"
    and "\<not> prefix ''Error: '' bits"
    and "\<forall>mem. aer_run e (quantum_job n) = Inr mem \<longrightarrow> set (concat mem) \<subseteq> {CHR ''0'', CHR ''1''}"
    and "mono (perf_readings e)"
  shows "filter (\<lambda>kv. fst kv = name) (results st) = [(name, duration_at e (2 * i))]
       \<and> 0 \<le> duration_at e (2 * i)"
proof -
  from assms(1) have l: "bench_loop e n generators (initial_state n) = Inr st"
    by (simp add: run_benchmark_Some)
  from assms(2,3) have mem: "(name, g) \<in> set generators"
    by (auto simp: in_set_conv_nth)
  from registry_output_marker [OF mem assms(4,5,6)] have ok: "\<not> sublist ''Error'' bits" .
  from bench_loop_succeeded [OF l distinct_generators assms(2,3,4) ok]
  have v: "map_of (results st) name = Some (duration_at e (2 * i))"
    by (simp add: initial_state_def)
  have "distinct (map fst (results st))"
    by (rule bench_loop_distinct [OF l]) (simp add: initial_state_def)
  from distinct_keys_one_entry [OF this v]
  have one: "filter (\<lambda>kv. fst kv = name) (results st) = [(name, duration_at e (2 * i))]" .
  from assms(7) have "perf_readings e (2 * i) \<le> perf_readings e (Suc (2 * i))"
    by (simp add: mono_def)
  then have "0 \<le> duration_at e (2 * i)" by (simp add: duration_at_def)
  with one show ?thesis by simp
qed

lemma timeout_quantum_chars:
  "aer_run timeout_env (quantum_job n) = Inr mem \<Longrightarrow> set (concat mem) \<subseteq> {CHR ''0'', CHR ''1''}"
  by (auto simp: timeout_env_def alternating_memory_def)

lemma classical_sample_2000:
  "\<exists>bits. generate_bits timeout_env ClassicalRNG 2000 = Inr bits \<and> \<not> prefix ''Error: '' bits"
proof -
  obtain bits where b: "generate_bits timeout_env ClassicalRNG 2000 = Inr bits"
    using classical_generate_bits_returns [of 2000 timeout_env] by auto
  then have "set bits \<subseteq> {CHR ''-'', CHR ''0'', CHR ''1''}"
    using classical_output_chars by simp
  then have "CHR ''E'' \<notin> set bits" by auto
  then have "\<not> prefix ''Error: '' bits"
    using no_Error_if_no_E prefix_Error_sublist by blast
  with b show ?thesis by blast
qed

theorem run_benchmark_records_succeeded_witness:
  "\<exists>st. run_benchmark timeout_env (Some 2000) = Inr st
      \<and> mono (perf_readings timeout_env)
      \<and> filter (\<lambda>kv. fst kv = ''Classical OS'') (results st) = [(''Classical OS'', 1)]
      \<and> (0::real) \<le> 1"
proof -
  from timeout_env_returns [of 2000]
  obtain st where st: "run_benchmark timeout_env (Some 2000) = Inr st" by auto
  from classical_sample_2000 obtain bits
    where b: "generate_bits timeout_env ClassicalRNG 2000 = Inr bits"
      and np: "\<not> prefix ''Error: '' bits" by blast
  have i: "1 < length generators" by (simp add: generators_def)
  have g: "generators ! 1 = (''Classical OS'', ClassicalRNG)" by (simp add: generators_def)
  have q: "\<forall>mem. aer_run timeout_env (quantum_job 2000) = Inr mem \<longrightarrow>
             set (concat mem) \<subseteq> {CHR ''0'', CHR ''1''}"
    using timeout_quantum_chars by blast
  have m: "mono (perf_readings timeout_env)"
    by (simp add: mono_def timeout_env_def)
  have d: "duration_at timeout_env (2 * 1) = 1"
    by (simp add: duration_at_def timeout_env_def)
  from run_benchmark_records_succeeded [OF st i g b np q m] st d m
  show ?thesis by simp
qed

text \<open>
  C6. The division \<^verbatim>\<open>target_bits / duration\<close> has no guard: whenever the loop reaches a
  generator whose output is not a failure and whose two clock readings coincide, the run
  ends in a \<^verbatim>\<open>ZeroDivisionError\<close>. The sample is a run in which the classical generator's
  call takes no measurable time.
\<close>

theorem run_benchmark_zero_duration:
  assumes "i < length generators"
    and "generators ! i = (name, g)"
    and "bench_loop e n (take i generators) (initial_state n) = Inr st0"
    and "generate_bits e g n = Inr bits"
    and "\<not> sublist ''Error'' bits"
    and "duration_at e (2 * i) = 0"
  shows "run_benchmark e (Some n) = Inl ZeroDivisionError"
proof -
  from assms(1,2) have split: "generators = take i generators @ (name, g) # drop (Suc i) generators"
    using id_take_nth_drop [of i generators] by simp
  from bench_loop_clock [OF assms(3)] assms(1)
  have "clock_reads st0 = 2 * i" by (simp add: initial_state_def)
  with assms(6) have "duration_at e (clock_reads st0) = 0" by simp
  from bench_step_zero [OF assms(4,5) this]
  have step: "bench_step e n (name, g) st0 = Inl ZeroDivisionError" .
  have "bench_loop e n (take i generators @ (name, g) # drop (Suc i) generators) (initial_state n)
          = Inl ZeroDivisionError"
    by (simp add: bench_loop_append assms(3) step)
  with split show ?thesis by (simp add: run_benchmark_Some)
qed

lemma stalled_quantum: "generate_bits stalled_clock_env QuantumSimulatorRNG 8 = Inr ''01010101''"
  by code_simp

lemma stalled_classical: "generate_bits stalled_clock_env ClassicalRNG 8 = Inr ''10100101''"
  by code_simp

theorem run_benchmark_zero_duration_witness:
  "generate_bits stalled_clock_env ClassicalRNG 8 = Inr ''10100101''
   \<and> \<not> sublist ''Error'' ''10100101''
   \<and> duration_at stalled_clock_env (2 * 1) = 0
   \<and> run_benchmark stalled_clock_env (Some 8) = Inl ZeroDivisionError"
proof -
  have i: "1 < length generators" by (simp add: generators_def)
  have g: "generators ! 1 = (''Classical OS'', ClassicalRNG)" by (simp add: generators_def)
  have nq: "\<not> sublist ''Error'' ''01010101''" by (rule no_Error_if_no_E) simp
  have nc: "\<not> sublist ''Error'' ''10100101''" by (rule no_Error_if_no_E) simp
  have d0: "duration_at stalled_clock_env (clock_reads (initial_state 8)) \<noteq> 0"
    by (simp add: duration_at_def stalled_clock_env_def initial_state_def)
  have d1: "duration_at stalled_clock_env (2 * 1) = 0"
    by (simp add: duration_at_def stalled_clock_env_def)
  have t: "take 1 generators = [(''Local Qiskit Sim'', QuantumSimulatorRNG)]"
    by (simp add: generators_def)
  have "\<exists>st0. bench_loop stalled_clock_env 8 (take 1 generators) (initial_state 8) = Inr st0"
    unfolding t using bench_step_succeeded [OF stalled_quantum nq d0] by simp
  then obtain st0
    where l: "bench_loop stalled_clock_env 8 (take 1 generators) (initial_state 8) = Inr st0" ..
  from run_benchmark_zero_duration [OF i g l stalled_classical nc d1] stalled_classical nc d1
  show ?thesis by simp
qed

section \<open>The quantum generator\<close>





section \<open>The entry point\<close>

lemma plt_bar_labels: "map bar_label (plt_bar names hs cols) = names"
  by (simp add: plt_bar_def comp_def map_nth)

lemma plt_bar_heights: "length hs = length names \<Longrightarrow> map bar_height (plt_bar names hs cols) = hs"
proof -
  assume "length hs = length names"
  then have "map (\<lambda>i. hs ! i) [0..<length names] = hs" using map_nth [of hs] by simp
  then show ?thesis by (simp add: plt_bar_def comp_def)
qed

text \<open>
  C8. The entry point runs the benchmark with a target of exactly 2000 bits, whatever the
  command line and the environment variables are; if the run raises, so does the script,
  and otherwise the chart of the returned mapping is shown: one bar per entry, in order,
  labelled by the name and as high as the duration.
\<close>

theorem main_runs_2000_then_plots:
  "main p e = main p' e
   \<and> (\<forall>err. run_benchmark e (Some 2000) = Inl err \<longrightarrow> main p e = Inl err)
   \<and> (\<forall>st. run_benchmark e (Some 2000) = Inr st \<longrightarrow>
         (\<exists>c. main p e = Inr (st, c) \<and> c = plot_results (results st) \<and> shown c
            \<and> map bar_label (chart_bars c) = map fst (results st)
            \<and> map bar_height (chart_bars c) = map snd (results st)))"
  by (auto simp: main_def plot_results_def Let_def plt_bar_labels plt_bar_heights)

theorem main_runs_2000_then_plots_witness:
  "\<exists>st c. run_benchmark timeout_env (Some 2000) = Inr st
      \<and> main \<lparr>argv = [''qrngsim.py''], environ = []\<rparr> timeout_env = Inr (st, c)
      \<and> main \<lparr>argv = [''qrngsim.py'', ''--bits'', ''8''], environ = [(''TARGET_BITS'', ''8'')]\<rparr> timeout_env
          = Inr (st, c)
      \<and> shown c
      \<and> map bar_label (chart_bars c) = map fst (results st)
      \<and> map bar_height (chart_bars c) = map snd (results st)"
proof -
  from timeout_env_returns [of 2000]
  obtain st where st: "run_benchmark timeout_env (Some 2000) = Inr st" by auto
  let ?p = "\<lparr>argv = [''qrngsim.py''], environ = []\<rparr>"
  let ?p' = "\<lparr>argv = [''qrngsim.py'', ''--bits'', ''8''], environ = [(''TARGET_BITS'', ''8'')]\<rparr>"
  note inst = main_runs_2000_then_plots [of ?p timeout_env ?p']
  from inst have same: "main ?p timeout_env = main ?p' timeout_env" by blast
  from inst st obtain c where "main ?p timeout_env = Inr (st, c)" and "shown c"
    and "map bar_label (chart_bars c) = map fst (results st)"
    and "map bar_height (chart_bars c) = map snd (results st)"
    by blast
  with st same show ?thesis by metis
qed

lemma header_differs: "stdout (initial_state 1024) \<noteq> stdout (initial_state 2000)"
  by code_simp

text \<open>
  C10. Called without an argument, \<^verbatim>\<open>run_benchmark\<close> runs with a target of 1024 bits,
  which is not the target of 2000 bits that the entry point passes; the two runs start
  from different states (the header names the target).
\<close>

theorem run_benchmark_default_target:
  "run_benchmark e None = run_benchmark e (Some 1024)
   \<and> run_benchmark e None = bench_loop e 1024 generators (initial_state 1024)
   \<and> main p e = (case bench_loop e 2000 generators (initial_state 2000) of
                   Inl err \<Rightarrow> Inl err
                 | Inr st \<Rightarrow> Inr (st, plot_results (results st)))
   \<and> (1024 :: int) \<noteq> 2000
   \<and> initial_state 1024 \<noteq> initial_state 2000"
proof -
  have "initial_state 1024 \<noteq> initial_state 2000"
    using header_differs by auto
  then show ?thesis
    by (simp add: run_benchmark_def main_def Let_def split: sum.splits)
qed

end
